theory Spec2Isabelle
  imports Main
begin

section \<open>Strings and characters\<close>

text \<open>
  The program is Python (\<^verbatim>\<open>passport_ocr.py\<close>). Its strings are modelled as HOL strings,
  lists of characters, restricted to ASCII text: the recogniser hands the decoder text over
  A-Z, 0-9 and the filler \<^verbatim>\<open><\<close> (the white list given to Tesseract). The character
  predicates of Python are given on ASCII.
\<close>

definition isdigit :: "char \<Rightarrow> bool" where
  "isdigit c = (c \<in> set ''0123456789'')"

definition isalpha :: "char \<Rightarrow> bool" where
  "isalpha c = (c \<in> set ''ABCDEFGHIJKLMNOPQRSTUVWXYZabcdefghijklmnopqrstuvwxyz'')"

definition isalnum :: "char \<Rightarrow> bool" where
  "isalnum c = (isalpha c \<or> isdigit c)"

definition ord :: "char \<Rightarrow> int" where
  "ord c = int (of_char c)"

text \<open>\<^verbatim>\<open>str.isdigit()\<close> on a whole string: true when it is not empty and all digits.\<close>

definition str_isdigit :: "string \<Rightarrow> bool" where
  "str_isdigit s = (s \<noteq> [] \<and> list_all isdigit s)"

section \<open>The check digit (\<^verbatim>\<open>MRZParser.calculate_check_digit\<close>)\<close>

definition weights :: "int list" where
  "weights = [7, 3, 1]"

text \<open>The body of the loop: the value of one character, in the order of the source's branches.\<close>

definition char_value :: "char \<Rightarrow> int" where
  "char_value c =
     (if c = CHR ''<'' then 0
      else if isdigit c then ord c - ord CHR ''0''
      else if isalpha c then ord c - ord CHR ''A'' + 10
      else 0)"

text \<open>
  The loop \<^verbatim>\<open>for i, char in enumerate(data): total += value * weights[i % 3]\<close>, with the
  index and the running total as arguments.
\<close>

fun check_loop :: "nat \<Rightarrow> int \<Rightarrow> string \<Rightarrow> int" where
  "check_loop i tot [] = tot"
| "check_loop i tot (c # cs) =
     check_loop (Suc i) (tot + char_value c * weights ! (i mod 3)) cs"

definition calculate_check_digit :: "string \<Rightarrow> int" where
  "calculate_check_digit data = check_loop 0 0 data mod 10"

subsection \<open>The check digit as the specification words it\<close>

text \<open>
  The specification's formula, written independently of the code: the value of a character
  is looked up by its position in the digits or in the alphabet, and the check digit is the
  weighted sum over the positions of the string, modulo 10.
\<close>

fun rank_in :: "char \<Rightarrow> string \<Rightarrow> nat option" where
  "rank_in c [] = None"
| "rank_in c (x # xs) = (if c = x then Some 0 else map_option Suc (rank_in c xs))"

definition spec_value :: "char \<Rightarrow> int" where
  "spec_value c =
     (if c = CHR ''<'' then 0
      else case rank_in c ''0123456789'' of
             Some d \<Rightarrow> int d
           | None \<Rightarrow> (case rank_in c ''ABCDEFGHIJKLMNOPQRSTUVWXYZ'' of
                        Some r \<Rightarrow> 10 + int r
                      | None \<Rightarrow> 0))"

definition spec_weight :: "nat \<Rightarrow> int" where
  "spec_weight k = (if k = 0 then 7 else if k = 1 then 3 else 1)"

definition spec_checksum :: "string \<Rightarrow> int" where
  "spec_checksum s = (\<Sum>i<length s. spec_value (s ! i) * spec_weight (i mod 3)) mod 10"

definition mrz_alphabet :: "char set" where
  "mrz_alphabet = set ''ABCDEFGHIJKLMNOPQRSTUVWXYZ0123456789<''"

section \<open>String operations of Python used by the decoder\<close>

definition isspace :: "char \<Rightarrow> bool" where
  "isspace c = (c \<in> set [CHR '' '', CHR 0x09, CHR 0x0A, CHR 0x0B, CHR 0x0C, CHR 0x0D,
                           CHR 0x1C, CHR 0x1D, CHR 0x1E, CHR 0x1F])"

definition rstrip_with :: "(char \<Rightarrow> bool) \<Rightarrow> string \<Rightarrow> string" where
  "rstrip_with p s = rev (dropWhile p (rev s))"

text \<open>\<^verbatim>\<open>s.strip()\<close>: white space removed at both ends.\<close>

definition strip :: "string \<Rightarrow> string" where
  "strip s = rstrip_with isspace (dropWhile isspace s)"

text \<open>\<^verbatim>\<open>s.rstrip(chars)\<close>: trailing characters of the given set removed.\<close>

definition rstrip :: "string \<Rightarrow> string \<Rightarrow> string" where
  "rstrip chars s = rstrip_with (\<lambda>c. c \<in> set chars) s"

definition ljust :: "nat \<Rightarrow> char \<Rightarrow> string \<Rightarrow> string" where
  "ljust n c s = s @ replicate (n - length s) c"

text \<open>\<^verbatim>\<open>s[a:b]\<close> for constant bounds \<open>a \<le> b\<close>; a slice never raises.\<close>

definition slice :: "nat \<Rightarrow> nat \<Rightarrow> string \<Rightarrow> string" where
  "slice a b s = take (b - a) (drop a s)"

text \<open>\<^verbatim>\<open>s.replace(c, '')\<close> and \<^verbatim>\<open>s.replace(c, d)\<close> for single characters.\<close>

definition remove_char :: "char \<Rightarrow> string \<Rightarrow> string" where
  "remove_char c s = filter (\<lambda>x. x \<noteq> c) s"

definition replace_char :: "char \<Rightarrow> char \<Rightarrow> string \<Rightarrow> string" where
  "replace_char c d s = map (\<lambda>x. if x = c then d else x) s"

definition startswith :: "string \<Rightarrow> string \<Rightarrow> bool" where
  "startswith s p = (take (length p) s = p)"

definition endswith :: "string \<Rightarrow> string \<Rightarrow> bool" where
  "endswith s p = (length p \<le> length s \<and> drop (length s - length p) s = p)"

definition count_char :: "char \<Rightarrow> string \<Rightarrow> nat" where
  "count_char c s = length (filter (\<lambda>x. x = c) s)"

text \<open>
  \<^verbatim>\<open>s.split(sep)\<close> for a separator that is not empty: the leftmost occurrences, not
  overlapping; \<open>cur\<close> is the piece being read, reversed.
\<close>

fun split_from :: "string \<Rightarrow> string \<Rightarrow> string \<Rightarrow> string list" where
  "split_from sep cur [] = [rev cur]"
| "split_from sep cur (c # cs) =
     (if sep \<noteq> [] \<and> take (length sep) (c # cs) = sep
      then rev cur # split_from sep [] (drop (length sep - 1) cs)
      else split_from sep (c # cur) cs)"

definition split :: "string \<Rightarrow> string \<Rightarrow> string list" where
  "split sep s = split_from sep [] s"

fun join :: "string \<Rightarrow> string list \<Rightarrow> string" where
  "join sep [] = []"
| "join sep [x] = x"
| "join sep (x # y # ys) = x @ sep @ join sep (y # ys)"

text \<open>\<^verbatim>\<open>int(s)\<close> on a string of decimal digits.\<close>

definition digit_of :: "char \<Rightarrow> nat" where
  "digit_of c = of_char c - of_char CHR ''0''"

definition int_of_str :: "string \<Rightarrow> nat" where
  "int_of_str s = foldl (\<lambda>acc c. 10 * acc + digit_of c) 0 s"

text \<open>The format \<^verbatim>\<open>{n:0wd}\<close>: decimal digits, padded with zeros to the width.\<close>

fun decimal :: "nat \<Rightarrow> string" where
  "decimal n =
     (if n < 10 then [''0123456789'' ! n]
      else decimal (n div 10) @ [''0123456789'' ! (n mod 10)])"

declare decimal.simps [simp del]

definition zero_pad :: "nat \<Rightarrow> nat \<Rightarrow> string" where
  "zero_pad w n = replicate (w - length (decimal n)) CHR ''0'' @ decimal n"

section \<open>Dates (\<^verbatim>\<open>MRZParser.parse_date\<close>)\<close>

text \<open>
  The constructor \<^verbatim>\<open>datetime(year, month, day)\<close> of the standard library raises
  \<^verbatim>\<open>ValueError\<close> unless the year is in 1..9999, the month in 1..12 and the day in
  1..the days of that month.
\<close>

definition is_leap :: "nat \<Rightarrow> bool" where
  "is_leap y = (y mod 4 = 0 \<and> (y mod 100 \<noteq> 0 \<or> y mod 400 = 0))"

definition days_in_month :: "nat \<Rightarrow> nat \<Rightarrow> nat" where
  "days_in_month y m =
     (if m = 2 \<and> is_leap y then 29
      else [31, 28, 31, 30, 31, 30, 31, 31, 30, 31, 30, 31] ! (m - 1))"

definition date_ok :: "nat \<Rightarrow> nat \<Rightarrow> nat \<Rightarrow> bool" where
  "date_ok y m d =
     (1 \<le> y \<and> y \<le> 9999 \<and> 1 \<le> m \<and> m \<le> 12 \<and> 1 \<le> d \<and> d \<le> days_in_month y m)"

definition iso_date :: "nat \<Rightarrow> nat \<Rightarrow> nat \<Rightarrow> string" where
  "iso_date y m d = zero_pad 4 y @ ''-'' @ zero_pad 2 m @ ''-'' @ zero_pad 2 d"

text \<open>
  \<^verbatim>\<open>parse_date\<close>: \<open>None\<close> for an input that is not six digits and for the
  \<^verbatim>\<open>ValueError\<close> of the constructor, which the source catches.
\<close>

definition parse_date :: "string \<Rightarrow> string option" where
  "parse_date date_str =
     (if length date_str \<noteq> 6 \<or> \<not> str_isdigit date_str then None
      else
        let yy = int_of_str (slice 0 2 date_str);
            mm = int_of_str (slice 2 4 date_str);
            dd = int_of_str (slice 4 6 date_str);
            yr = (if yy < 50 then 2000 + yy else 1900 + yy)
        in if date_ok yr mm dd then Some (iso_date yr mm dd) else None)"

subsection \<open>A calendar date as the specification words it\<close>

definition spec_century :: "nat \<Rightarrow> nat" where
  "spec_century yy = (if yy < 50 then 2000 + yy else 1900 + yy)"

definition spec_month_length :: "nat \<Rightarrow> nat \<Rightarrow> nat" where
  "spec_month_length y m =
     (if m \<in> {4, 6, 9, 11} then 30
      else if m = 2 then (if y mod 400 = 0 \<or> (y mod 4 = 0 \<and> y mod 100 \<noteq> 0) then 29 else 28)
      else 31)"

definition calendar_valid :: "nat \<Rightarrow> nat \<Rightarrow> nat \<Rightarrow> bool" where
  "calendar_valid y m d = (m \<in> {1..12} \<and> d \<in> {1..spec_month_length y m})"

definition digit_rank :: "char \<Rightarrow> nat" where
  "digit_rank c = (case rank_in c ''0123456789'' of Some d \<Rightarrow> d | None \<Rightarrow> 0)"

text \<open>
  Date decoding in the specification's words: six digits YYMMDD, the century 2000 for a
  year below 50 and 1900 otherwise, and a result exactly when year, month and day are a
  date of the calendar.
\<close>

definition spec_decode_date :: "string \<Rightarrow> (nat \<times> nat \<times> nat) option" where
  "spec_decode_date s =
     (if list_all (\<lambda>c. c \<in> set ''0123456789'') s then
        let yy = 10 * digit_rank (s ! 0) + digit_rank (s ! 1);
            mm = 10 * digit_rank (s ! 2) + digit_rank (s ! 3);
            dd = 10 * digit_rank (s ! 4) + digit_rank (s ! 5)
        in if calendar_valid (spec_century yy) mm dd
           then Some (spec_century yy, mm, dd) else None
      else None)"

definition iso_of :: "nat \<times> nat \<times> nat \<Rightarrow> string" where
  "iso_of t = (case t of (y, m, d) \<Rightarrow> iso_date y m d)"

section \<open>The decoder (\<^verbatim>\<open>MRZParser\<close>)\<close>

text \<open>
  \<^verbatim>\<open>verify_check_digit\<close>: the check character is a string of one character; one that
  is not a digit counts as \<open>-1\<close> and never matches.
\<close>

definition verify_check_digit :: "string \<Rightarrow> string \<Rightarrow> bool" where
  "verify_check_digit data check_digit =
     (let expected = calculate_check_digit data;
          actual = (if str_isdigit check_digit then int (int_of_str check_digit) else - 1)
      in expected = actual)"

text \<open>
  The dictionary that \<^verbatim>\<open>parse_td3_mrz\<close> returns is a record; its \<^verbatim>\<open>check_digits\<close>
  entry, a dictionary from the name of a check to its outcome, is an association list in
  the order of insertion. A date is \<open>None\<close> or the string YYYY-MM-DD.
\<close>

record parsed_record =
  document_type :: string
  issuing_country :: string
  surname :: string
  given_names :: string
  passport_number :: string
  nationality :: string
  date_of_birth :: "string option"
  sex :: string
  date_of_expiry :: "string option"
  personal_number :: string
  check_digits :: "(string \<times> bool) list"
  valid_mrz_checksum :: bool

text \<open>
  The correction of a country code of three characters that starts or ends with the
  digit 1 (lines 294-297 and again 314-317 of the source).
\<close>

definition fix_country_code :: "string \<Rightarrow> string" where
  "fix_country_code code =
     (let c1 = (if startswith code ''1'' \<and> length code = 3 then ''I'' @ drop 1 code else code)
      in if endswith c1 ''1'' \<and> length c1 = 3 then butlast c1 @ ''I'' else c1)"

text \<open>A line without its trailing K and X, padded with the filler and cut to 44 columns.\<close>

definition td3_line :: "string \<Rightarrow> string" where
  "td3_line l = take 44 (ljust 44 CHR ''<'' (rstrip ''KX'' l))"

text \<open>
  The body of the \<^verbatim>\<open>try\<close> block, on the two lines of 44 columns. Every index it reads
  is below 44, so no \<^verbatim>\<open>IndexError\<close> is raised and the \<^verbatim>\<open>except\<close> branch is not
  reached.
\<close>

definition td3_fields :: "string \<Rightarrow> string \<Rightarrow> parsed_record" where
  "td3_fields line1 line2 =
     (let names = rstrip ''<'' (drop 5 line1);
          name_parts = split ''<<'' names;
          sex_char = [line2 ! 20];
          dob = slice 13 19 line2;
          expiry = slice 21 27 line2;
          pers = remove_char CHR ''<'' (slice 28 42 line2);
          checks =
            [(''passport_number'', verify_check_digit (slice 0 9 line2) [line2 ! 9]),
             (''date_of_birth'', verify_check_digit dob [line2 ! 19]),
             (''date_of_expiry'', verify_check_digit expiry [line2 ! 27]),
             (''personal_number'',
                if pers \<noteq> [] then verify_check_digit (slice 28 42 line2) [line2 ! 42]
                else True)];
          composite_data = slice 0 10 line2 @ slice 13 20 line2 @ slice 21 43 line2;
          checks' = checks @ [(''composite'', verify_check_digit composite_data [line2 ! 43])]
      in \<lparr> document_type = [line1 ! 0],
           issuing_country = fix_country_code (remove_char CHR ''<'' (slice 2 5 line1)),
           surname =
             (if length name_parts > 0
              then strip (replace_char CHR ''<'' CHR '' '' (name_parts ! 0)) else []),
           given_names =
             (if length name_parts > 1
              then strip (replace_char CHR ''<'' CHR '' '' (name_parts ! 1)) else []),
           passport_number = remove_char CHR ''<'' (slice 0 9 line2),
           nationality = fix_country_code (remove_char CHR ''<'' (slice 10 13 line2)),
           date_of_birth = parse_date dob,
           sex = (if sex_char \<in> set [''M'', ''F'', ''X''] then sex_char else ''X''),
           date_of_expiry = parse_date expiry,
           personal_number = pers,
           check_digits = checks',
           valid_mrz_checksum = list_all snd checks' \<rparr>)"

definition parse_td3_mrz :: "string list \<Rightarrow> parsed_record option" where
  "parse_td3_mrz mrz_lines =
     (if length mrz_lines < 2 then None
      else
        let line1 = strip (mrz_lines ! 0);
            line2 = strip (mrz_lines ! 1)
        in if length line1 < 35 \<or> length line2 < 35 then None
           else Some (td3_fields (td3_line line1) (td3_line line2)))"

text \<open>
  The clean-up of one line of recognised text in \<^verbatim>\<open>parse_mrz\<close>. The source also
  replaces the em dash by the filler; the em dash is not an ASCII character, so on the
  strings of this model that replacement changes nothing.
\<close>

definition clean_line :: "string \<Rightarrow> string" where
  "clean_line l =
     (let line = replace_char CHR ''-'' CHR ''<'' (remove_char CHR '' '' (strip l))
      in if (endswith line ''K'' \<or> endswith line ''X'') \<and> length line < 44
         then rstrip ''KX'' line else line)"

text \<open>
  The filter on the cleaned lines. The purity test \<^verbatim>\<open>valid_chars / len(line) > 0.9\<close>
  is evaluated after \<^verbatim>\<open>len(line) >= 35\<close>, so it never divides by zero; for lengths up
  to 50 the quotient of the two integers in binary64 exceeds the literal 0.9 exactly when
  \<open>10 * valid_chars > 9 * len\<close>.
\<close>

definition looks_like_mrz :: "string \<Rightarrow> bool" where
  "looks_like_mrz line =
     (CHR '' '' \<notin> set line \<and>
      (let valid_chars = length (filter (\<lambda>c. isalnum c \<or> c = CHR ''<'') line);
           starts_with_doc_type = (length line > 0 \<and> hd line \<in> set ''PACIV'');
           has_mrz_markers = (CHR ''<'' \<in> set line)
       in length line \<ge> 35 \<and> length line \<le> 50
          \<and> 10 * valid_chars > 9 * length line
          \<and> has_mrz_markers
          \<and> (starts_with_doc_type \<or> count_char CHR ''<'' line \<ge> 5)))"

definition cleaned_lines :: "string \<Rightarrow> string list" where
  "cleaned_lines mrz_text =
     map clean_line (filter (\<lambda>l. strip l \<noteq> []) (split [CHR 0x0A] (strip mrz_text)))"

definition parse_mrz :: "string \<Rightarrow> parsed_record option" where
  "parse_mrz mrz_text =
     (let mrz_lines = filter looks_like_mrz (cleaned_lines mrz_text)
      in if mrz_lines = [] then None else parse_td3_mrz mrz_lines)"

text \<open>The nine fields of a decoded record that the round-trip example lists.\<close>

definition decoded_fields ::
  "parsed_record \<Rightarrow>
   string \<times> string \<times> string \<times> string \<times> string \<times> string \<times> string option \<times> string
     \<times> string option" where
  "decoded_fields r =
     (document_type r, issuing_country r, surname r, given_names r, passport_number r,
      nationality r, date_of_birth r, sex r, date_of_expiry r)"

subsection \<open>Line selection as the specification words it\<close>

definition valid_count :: "string \<Rightarrow> nat" where
  "valid_count line = length (filter (\<lambda>c. isalnum c \<or> c = CHR ''<'') line)"

text \<open>
  The conditions on length, filler and first letter, and then the purity condition in two
  readings: at least 90 percent, as the specification has it, and more than 90 percent.
\<close>

definition spec_candidate_shape :: "string \<Rightarrow> bool" where
  "spec_candidate_shape line =
     (35 \<le> length line \<and> length line \<le> 50 \<and> CHR ''<'' \<in> set line
      \<and> ((line \<noteq> [] \<and> hd line \<in> set ''PACIV'') \<or> 5 \<le> count_char CHR ''<'' line))"

definition spec_mrz_candidate :: "string \<Rightarrow> bool" where
  "spec_mrz_candidate line =
     (spec_candidate_shape line \<and> 100 * valid_count line \<ge> 90 * length line)"

definition amended_mrz_candidate :: "string \<Rightarrow> bool" where
  "amended_mrz_candidate line =
     (spec_candidate_shape line \<and> 100 * valid_count line > 90 * length line)"

text \<open>A line of 40 characters of which exactly 36 are alphanumeric or the filler.\<close>

definition impure_line :: string where
  "impure_line = ''P<GBRJENNINGS<<PAUL<MICHAEL<<<<<<<<<....''"

text \<open>The two short lines of the repository's test of short lines, as one text.\<close>

definition short_text :: string where
  "short_text = ''P<GBR'' @ [CHR 0x0A] @ ''0123456784''"

subsection \<open>Two documents used as examples\<close>

text \<open>
  The two lines of the specification's round-trip example (43 and 45 characters), and the
  two lines of a second document whose personal number is empty while column 42 holds
  the digit 7.
\<close>

definition jennings_line1 :: string where
  "jennings_line1 = ''P<GBRJENNINGS<<PAUL<MICHAEL<<<<<<<<<<<<<<<<''"

definition jennings_line2 :: string where
  "jennings_line2 = ''0123456784GBR8411025M08100504<<<<<<<<<<<<<<02''"

text \<open>The two lines as one text, separated by a line feed.\<close>

definition jennings_text :: string where
  "jennings_text = jennings_line1 @ [CHR 0x0A] @ jennings_line2"

definition jennings_record :: parsed_record where
  "jennings_record =
     \<lparr> document_type = ''P'', issuing_country = ''GBR'', surname = ''JENNINGS'',
       given_names = ''PAUL MICHAEL'', passport_number = ''012345678'',
       nationality = ''GBR'', date_of_birth = Some ''1984-11-02'', sex = ''M'',
       date_of_expiry = Some ''2008-10-05'', personal_number = ''4'',
       check_digits =
         [(''passport_number'', True), (''date_of_birth'', False),
          (''date_of_expiry'', True), (''personal_number'', False),
          (''composite'', False)],
       valid_mrz_checksum = False \<rparr>"

definition eriksson_line1 :: string where
  "eriksson_line1 = ''P<UTOERIKSSON<<ANNA<MARIA<<<<<<<<<<<<<<<<<<<''"

definition eriksson_line2 :: string where
  "eriksson_line2 = ''L898902C36UTO7408122F1204159<<<<<<<<<<<<<<74''"

definition eriksson_record :: parsed_record where
  "eriksson_record =
     \<lparr> document_type = ''P'', issuing_country = ''UTO'', surname = ''ERIKSSON'',
       given_names = ''ANNA MARIA'', passport_number = ''L898902C3'',
       nationality = ''UTO'', date_of_birth = Some ''1974-08-12'', sex = ''F'',
       date_of_expiry = Some ''2012-04-15'', personal_number = [],
       check_digits =
         [(''passport_number'', True), (''date_of_birth'', True),
          (''date_of_expiry'', True), (''personal_number'', True),
          (''composite'', False)],
       valid_mrz_checksum = False \<rparr>"

section \<open>The validator (\<^verbatim>\<open>PassportValidator\<close>)\<close>

text \<open>
  A value of \<^verbatim>\<open>datetime\<close> without a time zone. Two values compare field by field, from
  the year down to the microsecond.
\<close>

record datetime =
  dt_year :: nat
  dt_month :: nat
  dt_day :: nat
  dt_hour :: nat
  dt_minute :: nat
  dt_second :: nat
  dt_microsecond :: nat

fun lex_less :: "nat list \<Rightarrow> nat list \<Rightarrow> bool" where
  "lex_less (x # xs) (y # ys) = (x < y \<or> (x = y \<and> lex_less xs ys))"
| "lex_less [] ys = False"
| "lex_less xs [] = False"

definition dt_fields :: "datetime \<Rightarrow> nat list" where
  "dt_fields t =
     [dt_year t, dt_month t, dt_day t, dt_hour t, dt_minute t, dt_second t, dt_microsecond t]"

definition datetime_less :: "datetime \<Rightarrow> datetime \<Rightarrow> bool" where
  "datetime_less a b = lex_less (dt_fields a) (dt_fields b)"

text \<open>\<^verbatim>\<open>datetime(y, m, d)\<close>: the start of the day.\<close>

definition midnight :: "nat \<Rightarrow> nat \<Rightarrow> nat \<Rightarrow> datetime" where
  "midnight y m d =
     \<lparr> dt_year = y, dt_month = m, dt_day = d, dt_hour = 0, dt_minute = 0, dt_second = 0,
       dt_microsecond = 0 \<rparr>"

text \<open>
  \<^verbatim>\<open>datetime.strptime(s, '%Y-%m-%d')\<close> of the standard library. The format compiles to
  the regular expression
  \<^verbatim>\<open>(\d\d\d\d)-(1[0-2]|0[1-9]|[1-9])-(3[01]|[12]\d|0[1-9]|[1-9]| [1-9])\<close>, matched at
  the start of the string; text left over after the match, and a year, month and day that
  are not a date, raise \<^verbatim>\<open>ValueError\<close> (here \<open>None\<close>). Each matcher returns the
  number read and the rest of the string.
\<close>

definition match_year :: "string \<Rightarrow> (nat \<times> string) option" where
  "match_year s =
     (if 4 \<le> length s \<and> list_all isdigit (take 4 s)
      then Some (int_of_str (take 4 s), drop 4 s) else None)"

definition expect_dash :: "string \<Rightarrow> string option" where
  "expect_dash s = (case s of [] \<Rightarrow> None | c # rest \<Rightarrow> if c = CHR ''-'' then Some rest else None)"

fun match_month :: "string \<Rightarrow> (nat \<times> string) option" where
  "match_month (a # b # rest) =
     (if a = CHR ''1'' \<and> b \<in> set ''012'' then Some (10 + digit_of b, rest)
      else if a = CHR ''0'' \<and> b \<in> set ''123456789'' then Some (digit_of b, rest)
      else if a \<in> set ''123456789'' then Some (digit_of a, b # rest)
      else None)"
| "match_month [a] = (if a \<in> set ''123456789'' then Some (digit_of a, []) else None)"
| "match_month [] = None"

fun match_day :: "string \<Rightarrow> (nat \<times> string) option" where
  "match_day (a # b # rest) =
     (if a = CHR ''3'' \<and> b \<in> set ''01'' then Some (30 + digit_of b, rest)
      else if a \<in> set ''12'' \<and> isdigit b then Some (10 * digit_of a + digit_of b, rest)
      else if a = CHR ''0'' \<and> b \<in> set ''123456789'' then Some (digit_of b, rest)
      else if a \<in> set ''123456789'' then Some (digit_of a, b # rest)
      else if a = CHR '' '' \<and> b \<in> set ''123456789'' then Some (digit_of b, rest)
      else None)"
| "match_day [a] = (if a \<in> set ''123456789'' then Some (digit_of a, []) else None)"
| "match_day [] = None"

definition strptime_ymd :: "string \<Rightarrow> datetime option" where
  "strptime_ymd s =
     (case match_year s of
        None \<Rightarrow> None
      | Some (y, s1) \<Rightarrow>
         (case expect_dash s1 of
            None \<Rightarrow> None
          | Some s2 \<Rightarrow>
             (case match_month s2 of
                None \<Rightarrow> None
              | Some (m, s3) \<Rightarrow>
                 (case expect_dash s3 of
                    None \<Rightarrow> None
                  | Some s4 \<Rightarrow>
                     (case match_day s4 of
                        None \<Rightarrow> None
                      | Some (d, s5) \<Rightarrow>
                          if s5 = [] \<and> date_ok y m d then Some (midnight y m d)
                          else None)))))"

text \<open>\<^verbatim>\<open>s.upper()\<close> on ASCII.\<close>

definition upper_char :: "char \<Rightarrow> char" where
  "upper_char c =
     (case rank_in c ''abcdefghijklmnopqrstuvwxyz'' of
        Some i \<Rightarrow> ''ABCDEFGHIJKLMNOPQRSTUVWXYZ'' ! i
      | None \<Rightarrow> c)"

definition upper :: "string \<Rightarrow> string" where
  "upper s = map upper_char s"

definition VALID_COUNTRY_CODES :: "string list" where
  "VALID_COUNTRY_CODES =
     [
      ''AFG'', ''ALB'', ''DZA'', ''AND'', ''AGO'', ''ATG'', ''ARG'', ''ARM'', ''AUS'', ''AUT'',
      ''AZE'', ''BHS'', ''BHR'', ''BGD'', ''BRB'', ''BLR'', ''BEL'', ''BLZ'', ''BEN'', ''BTN'',
      ''BOL'', ''BIH'', ''BWA'', ''BRA'', ''BRN'', ''BGR'', ''BFA'', ''BDI'', ''KHM'', ''CMR'',
      ''CAN'', ''CPV'', ''CAF'', ''TCD'', ''CHL'', ''CHN'', ''COL'', ''COM'', ''COG'', ''CRI'',
      ''CIV'', ''HRV'', ''CUB'', ''CYP'', ''CZE'', ''PRK'', ''COD'', ''DNK'', ''DJI'', ''DMA'',
      ''DOM'', ''ECU'', ''EGY'', ''SLV'', ''GNQ'', ''ERI'', ''EST'', ''ETH'', ''FJI'', ''FIN'',
      ''FRA'', ''GAB'', ''GMB'', ''GEO'', ''DEU'', ''GHA'', ''GRC'', ''GRD'', ''GTM'', ''GIN'',
      ''GNB'', ''GUY'', ''HTI'', ''HND'', ''HUN'', ''ISL'', ''IND'', ''IDN'', ''IRN'', ''IRQ'',
      ''IRL'', ''ISR'', ''ITA'', ''JAM'', ''JPN'', ''JOR'', ''KAZ'', ''KEN'', ''KIR'', ''KWT'',
      ''KGZ'', ''LAO'', ''LVA'', ''LBN'', ''LSO'', ''LBR'', ''LBY'', ''LIE'', ''LTU'', ''LUX'',
      ''MKD'', ''MDG'', ''MWI'', ''MYS'', ''MDV'', ''MLI'', ''MLT'', ''MHL'', ''MRT'', ''MUS'',
      ''MEX'', ''FSM'', ''MCO'', ''MNG'', ''MNE'', ''MAR'', ''MOZ'', ''MMR'', ''NAM'', ''NRU'',
      ''NPL'', ''NLD'', ''NZL'', ''NIC'', ''NER'', ''NGA'', ''NOR'', ''OMN'', ''PAK'', ''PLW'',
      ''PAN'', ''PNG'', ''PRY'', ''PER'', ''PHL'', ''POL'', ''PRT'', ''QAT'', ''KOR'', ''MDA'',
      ''ROU'', ''RUS'', ''RWA'', ''KNA'', ''LCA'', ''VCT'', ''WSM'', ''SMR'', ''STP'', ''SAU'',
      ''SEN'', ''SRB'', ''SYC'', ''SLE'', ''SGP'', ''SVK'', ''SVN'', ''SLB'', ''SOM'', ''ZAF'',
      ''SSD'', ''ESP'', ''LKA'', ''SDN'', ''SUR'', ''SWZ'', ''SWE'', ''CHE'', ''SYR'', ''TJK'',
      ''THA'', ''TLS'', ''TGO'', ''TON'', ''TTO'', ''TUN'', ''TUR'', ''TKM'', ''TUV'', ''TWN'',
      ''UGA'', ''UKR'', ''ARE'', ''GBR'', ''TZA'', ''USA'', ''URY'', ''UZB'', ''VUT'', ''VEN'',
      ''VNM'', ''YEM'', ''ZMB'', ''ZWE'', ''D<<'']"

definition VALID_DOCUMENT_TYPES :: "string list" where
  "VALID_DOCUMENT_TYPES = [''P'', ''A'', ''C'', ''I'', ''V'']"

text \<open>
  The rules of \<^verbatim>\<open>validate_passport\<close>, each giving the messages it appends, in the
  order of the source. \<open>now\<close> is the value of \<^verbatim>\<open>datetime.now()\<close> that the source
  reads once and names \<^verbatim>\<open>today\<close>.
\<close>

definition document_type_errors :: "parsed_record \<Rightarrow> string list" where
  "document_type_errors r =
     (if document_type r \<notin> set VALID_DOCUMENT_TYPES
      then [''Invalid document type: '' @ document_type r] else [])"

definition country_errors :: "parsed_record \<Rightarrow> string list" where
  "country_errors r =
     (let issuing = upper (issuing_country r);
          nat_code = upper (nationality r)
      in (if issuing \<noteq> [] \<and> issuing \<notin> set VALID_COUNTRY_CODES
          then [''Invalid issuing country code: '' @ issuing] else [])
       @ (if nat_code \<noteq> [] \<and> nat_code \<notin> set VALID_COUNTRY_CODES
          then [''Invalid nationality code: '' @ nat_code] else []))"

text \<open>
  The checksum rule. \<^verbatim>\<open>check_details.get(k)\<close> is \<open>map_of\<close>; \<^verbatim>\<open>not v\<close> holds for a
  missing entry and for \<^verbatim>\<open>False\<close>. The branch on the personal-number and composite
  checks is \<^verbatim>\<open>pass\<close> in the source and appends nothing.
\<close>

definition checksum_errors :: "(string \<times> bool) list \<Rightarrow> string list" where
  "checksum_errors check_details =
     (let critical_checks =
            [(''passport_number'', map_of check_details ''passport_number''),
             (''date_of_birth'', map_of check_details ''date_of_birth''),
             (''date_of_expiry'', map_of check_details ''date_of_expiry'')];
          failed_critical = map fst (filter (\<lambda>kv. snd kv \<noteq> Some True) critical_checks)
      in if failed_critical \<noteq> []
         then [''Critical MRZ checksum validation failed: '' @ join '', '' failed_critical]
         else [])"

definition dob_errors :: "datetime \<Rightarrow> string option \<Rightarrow> string list" where
  "dob_errors now dob_str =
     (case dob_str of
        None \<Rightarrow> [''Missing date of birth'']
      | Some s \<Rightarrow>
          if s = [] then [''Missing date of birth'']
          else (case strptime_ymd s of
                  None \<Rightarrow> [''Invalid date of birth format: '' @ s]
                | Some dob \<Rightarrow>
                    (if datetime_less now dob then [''Date of birth is in the future''] else [])
                  @ (if datetime_less dob (midnight 1900 1 1)
                     then [''Date of birth is too far in the past''] else [])))"

definition expiry_errors :: "datetime \<Rightarrow> string option \<Rightarrow> string list" where
  "expiry_errors now expiry_str =
     (case expiry_str of
        None \<Rightarrow> [''Missing expiry date'']
      | Some s \<Rightarrow>
          if s = [] then [''Missing expiry date'']
          else (case strptime_ymd s of
                  None \<Rightarrow> [''Invalid expiry date format: '' @ s]
                | Some expiry \<Rightarrow>
                    if datetime_less expiry now then [''Passport has expired''] else []))"

definition required_errors :: "parsed_record \<Rightarrow> string list" where
  "required_errors r =
     (if surname r = [] then [''Missing required field: surname''] else [])
   @ (if passport_number r = [] then [''Missing required field: passport_number''] else [])"

definition validate_passport :: "datetime \<Rightarrow> parsed_record \<Rightarrow> bool \<times> string list" where
  "validate_passport now r =
     (let errors = document_type_errors r @ country_errors r
                 @ checksum_errors (check_digits r)
                 @ dob_errors now (date_of_birth r)
                 @ expiry_errors now (date_of_expiry r)
                 @ required_errors r
      in (errors = [], errors))"






text \<open>
  The checksum rule as the specification words it: the names of the critical checks whose
  outcome is not true, and the violations that belong to the rule.
\<close>

definition critical_names :: "string list" where
  "critical_names = [''passport_number'', ''date_of_birth'', ''date_of_expiry'']"

definition failing_critical :: "parsed_record \<Rightarrow> string list" where
  "failing_critical r =
     filter (\<lambda>k. map_of (check_digits r) k \<noteq> Some True) critical_names"

definition is_checksum_violation :: "string \<Rightarrow> bool" where
  "is_checksum_violation e = startswith e ''Critical MRZ checksum validation failed: ''"

subsection \<open>A time of validation and three records used as examples\<close>

definition noon_2026_11_04 :: datetime where
  "noon_2026_11_04 =
     \<lparr> dt_year = 2026, dt_month = 11, dt_day = 4, dt_hour = 12, dt_minute = 0,
       dt_second = 0, dt_microsecond = 0 \<rparr>"




text \<open>A check map that differs from the second example's in the two informational checks.\<close>

definition other_checks :: "(string \<times> bool) list" where
  "other_checks =
     [(''passport_number'', True), (''date_of_birth'', True), (''date_of_expiry'', True),
      (''personal_number'', False), (''composite'', True)]"

section \<open>The region locator (\<^verbatim>\<open>MRZDetector.detect_mrz\<close>)\<close>

text \<open>
  The locator multiplies the height and the width of the image, which are integers, by
  the literals 0.5, 0.7, 0.4, 0.2 and 0.15. These are products in binary64: the integer is
  converted, the exact product is rounded to 53 significant bits, ties to even. A literal
  is \<open>m / 2 ^ e\<close> for integers \<open>m\<close> and \<open>e\<close>; \<open>float_mul h m\<close> is the numerator of the
  rounded product over the same \<open>2 ^ e\<close>. Overflow and subnormal numbers are out of reach
  for the dimensions of an image.
\<close>

fun bit_length :: "nat \<Rightarrow> nat" where
  "bit_length n = (if n = 0 then 0 else Suc (bit_length (n div 2)))"

declare bit_length.simps [simp del]

definition round53 :: "nat \<Rightarrow> nat" where
  "round53 p =
     (let k = bit_length p - 53;
          q = p div 2 ^ k;
          r = p mod 2 ^ k
      in if 2 * r > 2 ^ k \<or> (2 * r = 2 ^ k \<and> odd q) then (q + 1) * 2 ^ k else q * 2 ^ k)"

definition float_mul :: "nat \<Rightarrow> nat \<Rightarrow> nat" where
  "float_mul h m = round53 (round53 h * m)"

text \<open>
  \<^verbatim>\<open>int(h * 0.15)\<close>, the height of the fallback band: 0.15 is
  \<open>5404319552844595 / 2 ^ 55\<close> in binary64.
\<close>

definition bottom_height :: "nat \<Rightarrow> nat" where
  "bottom_height h = float_mul h 5404319552844595 div 2 ^ 55"

text \<open>
  A contour enters the model as its bounding box \<open>(x, y, cw, ch)\<close>, the result of
  \<^verbatim>\<open>cv2.boundingRect\<close>. The geometric filter of lines 117 to 121: 0.5 is \<open>1 / 2\<close>, 0.7 is
  \<open>3152519739159347 / 2 ^ 52\<close>, 0.4 is \<open>3602879701896397 / 2 ^ 53\<close> and 0.2 is
  \<open>3602879701896397 / 2 ^ 54\<close>; an integer and a float compare by their exact values.
  The quotient \<^verbatim>\<open>cw / ch\<close> of two integers is rounded once, and it exceeds 4 exactly when
  the exact quotient exceeds \<open>4 + 2 ^ -51\<close>; it is computed only when \<open>ch > 15\<close>.
\<close>

type_synonym box = "nat \<times> nat \<times> nat \<times> nat"

definition is_candidate :: "nat \<Rightarrow> nat \<Rightarrow> box \<Rightarrow> bool" where
  "is_candidate h w b =
     (case b of (x, y, cw, ch) \<Rightarrow>
        let bottom_third_y = float_mul h 1 div 2
        in y > bottom_third_y
           \<and> (y + ch) * 2 ^ 52 > float_mul h 3152519739159347
           \<and> cw * 2 ^ 53 > float_mul w 3602879701896397
           \<and> ch > 15 \<and> ch * 2 ^ 54 < float_mul h 3602879701896397
           \<and> cw * 2 ^ 51 > ch * (2 ^ 53 + 1))"

text \<open>
  \<^verbatim>\<open>max(mrz_candidates, key=...)\<close> on the vertical offset: the first candidate among those
  that lie lowest.
\<close>

fun lowest :: "box \<Rightarrow> box list \<Rightarrow> box" where
  "lowest b [] = b"
| "lowest b (c # cs) =
     (if fst (snd c) > fst (snd b) then lowest c cs else lowest b cs)"

text \<open>A region \<^verbatim>\<open>image[row_start:row_end, col_start:col_end]\<close> of the image.\<close>

record region =
  row_start :: nat
  row_end :: nat
  col_start :: nat
  col_end :: nat

text \<open>
  \<^verbatim>\<open>detect_mrz\<close> from line 99 on, for an image of height \<open>h\<close> and width \<open>w\<close> and the
  bounding boxes of the contours that OpenCV finds in it (lines 52 to 97, outside the
  model). \<open>None\<close> is the \<^verbatim>\<open>None\<close> of the source: no region found. The boxes lie inside
  the image, so the subtractions of the last branch do not go below zero except where the
  source takes the maximum with zero.
\<close>

definition detect_mrz :: "nat \<Rightarrow> nat \<Rightarrow> box list \<Rightarrow> region option" where
  "detect_mrz h w contours =
     (if contours = [] then None
      else
        let mrz_candidates = filter (is_candidate h w) contours
        in if mrz_candidates = [] then
             (if bottom_height h > 40
              then Some \<lparr> row_start = h - bottom_height h, row_end = h,
                          col_start = 0, col_end = w \<rparr>
              else None)
           else
             (case lowest (hd mrz_candidates) (tl mrz_candidates) of
                (x, y, bw, bh) \<Rightarrow>
                  let x' = x - 10;
                      y' = y - 42;
                      w' = min (w - x') (bw + 2 * 10);
                      h' = min (h - y') (bh + 42 + 6)
                  in Some \<lparr> row_start = y', row_end = y' + h',
                              col_start = x', col_end = x' + w' \<rparr>))"

section \<open>The pipeline (\<^verbatim>\<open>PassportOCR.process_image\<close>)\<close>

text \<open>
  The dictionary that \<^verbatim>\<open>process_image\<close> returns: an entry that a result does not have is
  \<open>None\<close>; the entries of the decoded record, merged into the dictionary by the source,
  are the field \<open>parsed\<close>.
\<close>

record processing_result =
  success :: bool
  error :: "string option"
  valid_passport :: bool
  parsed :: "parsed_record option"
  validation_errors :: "string list option"
  mrz_text :: "string option"

text \<open>
  The image is opaque. What the pipeline takes from it comes through three parameters:
  its shape (height and width), the bounding boxes of the contours OpenCV finds, and the
  text the recogniser reads in a region (\<open>None\<close> when the recogniser raises, which
  \<^verbatim>\<open>process_image\<close> does not catch: its result is then \<open>None\<close> too). \<open>now\<close> is the clock
  read by the validator and \<open>debug\<close> the flag of the object.
\<close>

definition process_image ::
  "('img \<Rightarrow> nat \<times> nat) \<Rightarrow> ('img \<Rightarrow> box list) \<Rightarrow> ('img \<Rightarrow> region \<Rightarrow> string option)
   \<Rightarrow> bool \<Rightarrow> datetime \<Rightarrow> 'img \<Rightarrow> processing_result option" where
  "process_image shape find_contours extract_mrz_text debug now img =
     (case detect_mrz (fst (shape img)) (snd (shape img)) (find_contours img) of
        None \<Rightarrow>
          Some \<lparr> success = False, error = Some ''Could not detect MRZ region in image'',
                 valid_passport = False, parsed = None, validation_errors = None,
                 mrz_text = None \<rparr>
      | Some mrz_roi \<Rightarrow>
          (case extract_mrz_text img mrz_roi of
             None \<Rightarrow> None
           | Some raw \<Rightarrow>
               (case parse_mrz raw of
                  None \<Rightarrow>
                    Some \<lparr> success = False, error = Some ''Could not parse MRZ text'',
                           valid_passport = False, parsed = None, validation_errors = None,
                           mrz_text = Some raw \<rparr>
                | Some parsed_data \<Rightarrow>
                    (case validate_passport now parsed_data of
                       (is_valid, errors) \<Rightarrow>
                         Some \<lparr> success = True, error = None, valid_passport = is_valid,
                                parsed = Some parsed_data,
                                validation_errors = (if errors \<noteq> [] then Some errors else None),
                                mrz_text = (if debug then Some raw else None) \<rparr>))))"

subsection \<open>An image used as an example\<close>

text \<open>
  An image of 800 by 600 pixels with one small contour, in which the recogniser reads the
  two lines of the round-trip example.
\<close>

definition example_shape :: "unit \<Rightarrow> nat \<times> nat" where
  "example_shape img = (800, 600)"

definition example_contours :: "unit \<Rightarrow> box list" where
  "example_contours img = [(0, 0, 10, 10)]"

definition example_recogniser :: "unit \<Rightarrow> region \<Rightarrow> string option" where
  "example_recogniser img roi = Some jennings_text"

section \<open>Properties of the check digit\<close>

lemma weights_nth: "weights ! (k mod 3) = spec_weight (k mod 3)"
proof -
  have "k mod 3 = 0 \<or> k mod 3 = 1 \<or> k mod 3 = 2" by arith
  then show ?thesis
    by (auto simp: weights_def spec_weight_def)
qed

lemma check_loop_sum:
  "check_loop i tot s = tot + (\<Sum>j<length s. char_value (s ! j) * weights ! ((i + j) mod 3))"
proof (induction s arbitrary: i tot)
  case Nil
  then show ?case by simp
next
  case (Cons c cs)
  show ?case
    by (simp add: Cons.IH sum.lessThan_Suc_shift add.assoc del: sum.lessThan_Suc)
qed

lemma char_value_spec: "c \<in> mrz_alphabet \<Longrightarrow> char_value c = spec_value c"
  unfolding mrz_alphabet_def
  by (auto simp: char_value_def spec_value_def isdigit_def isalpha_def ord_def)

text \<open>
  Claim C1: for every string over the MRZ alphabet (A-Z, 0-9 and the filler), the check
  digit computed by the code is the sum of value times weight over the positions, modulo
  10, with the weights 7, 3, 1 cycling, the filler worth 0, a digit worth itself and a
  letter worth 10 plus its rank. The result is a function of the string alone.
\<close>

theorem calculate_check_digit_spec:
  assumes "set s \<subseteq> mrz_alphabet"
  shows "calculate_check_digit s = spec_checksum s"
proof -
  have "(\<Sum>j<length s. char_value (s ! j) * weights ! ((0 + j) mod 3))
      = (\<Sum>i<length s. spec_value (s ! i) * spec_weight (i mod 3))"
  proof (rule sum.cong)
    fix j assume "j \<in> {..<length s}"
    then have "s ! j \<in> mrz_alphabet"
      using assms by (auto simp: subset_iff)
    then show "char_value (s ! j) * weights ! ((0 + j) mod 3)
             = spec_value (s ! j) * spec_weight (j mod 3)"
      by (simp add: char_value_spec weights_nth)
  qed simp
  then show ?thesis
    by (simp add: calculate_check_digit_def spec_checksum_def check_loop_sum)
qed

theorem calculate_check_digit_spec_witness:
  "set ''L898902C<'' \<subseteq> mrz_alphabet
   \<and> calculate_check_digit ''L898902C<'' = spec_checksum ''L898902C<''
   \<and> spec_checksum ''L898902C<'' = 3"
proof -
  have h: "set ''L898902C<'' \<subseteq> mrz_alphabet"
    by (simp add: mrz_alphabet_def)
  have v: "calculate_check_digit ''L898902C<'' = 3"
    by (simp add: calculate_check_digit_def char_value_def isdigit_def isalpha_def
        ord_def weights_def)
  from calculate_check_digit_spec [OF h] h v show ?thesis by simp
qed

lemma check_digit_examples:
  "map calculate_check_digit
     [''AB2134<<<'', ''780131'', ''L898902C<'', ''690806'', ''940623'', ''ZE184226<'']
   = [5, 0, 3, 1, 6, 0]"
  by (simp add: calculate_check_digit_def char_value_def isdigit_def isalpha_def
      ord_def weights_def)

text \<open>
  Claim C8, as stated: the check digits of \<^verbatim>\<open>AB2134<<<\<close>, \<^verbatim>\<open>780131\<close>, \<^verbatim>\<open>L898902C<\<close>,
  \<^verbatim>\<open>690806\<close>, \<^verbatim>\<open>940623\<close> and \<^verbatim>\<open>ZE184226<\<close> are 5, 7, 3, 6, 1 and 1. The code
  does not compute these six values: four of them differ.
\<close>

theorem check_digit_examples_counterexample:
  "\<not> (calculate_check_digit ''AB2134<<<'' = 5
      \<and> calculate_check_digit ''780131'' = 7
      \<and> calculate_check_digit ''L898902C<'' = 3
      \<and> calculate_check_digit ''690806'' = 6
      \<and> calculate_check_digit ''940623'' = 1
      \<and> calculate_check_digit ''ZE184226<'' = 1)"
  using check_digit_examples by simp

text \<open>
  Claim C8, amended: the check digits of the six strings are 5, 0, 3, 1, 6 and 0, as the
  weighted sum of claim C1 gives them (for \<^verbatim>\<open>780131\<close> the sum is 90).
\<close>

theorem check_digit_examples_amended:
  "calculate_check_digit ''AB2134<<<'' = 5
   \<and> calculate_check_digit ''780131'' = 0
   \<and> calculate_check_digit ''L898902C<'' = 3
   \<and> calculate_check_digit ''690806'' = 1
   \<and> calculate_check_digit ''940623'' = 6
   \<and> calculate_check_digit ''ZE184226<'' = 0"
  using check_digit_examples by simp

section \<open>Properties of date parsing\<close>

lemma isdigit_fun: "isdigit = (\<lambda>c. c \<in> set ''0123456789'')"
  by (rule ext) (simp only: isdigit_def)

lemma digit_rank_of: "isdigit c \<Longrightarrow> digit_rank c = digit_of c"
  by (auto simp: isdigit_def digit_rank_def digit_of_def)

lemma digit_of_less: "isdigit c \<Longrightarrow> digit_of c < 10"
  by (auto simp: isdigit_def digit_of_def)

lemma date_ok_calendar:
  assumes "1 \<le> y" "y \<le> 9999"
  shows "date_ok y m d = calendar_valid y m d"
proof (cases "1 \<le> m \<and> m \<le> 12")
  case False
  then show ?thesis by (auto simp: date_ok_def calendar_valid_def)
next
  case True
  then have "m = 1 \<or> m = 2 \<or> m = 3 \<or> m = 4 \<or> m = 5 \<or> m = 6 \<or> m = 7 \<or> m = 8
      \<or> m = 9 \<or> m = 10 \<or> m = 11 \<or> m = 12" by arith
  then have "days_in_month y m = spec_month_length y m"
    by (auto simp: days_in_month_def spec_month_length_def is_leap_def)
  with True assms show ?thesis by (auto simp: date_ok_def calendar_valid_def)
qed

lemma length6: "length s = 6 \<Longrightarrow> \<exists>a b c d e f. s = [a, b, c, d, e, f]"
  by (cases s; simp; (rename_tac x1 s1, case_tac s1; simp)?;
         (rename_tac x2 s2, case_tac s2; simp)?; (rename_tac x3 s3, case_tac s3; simp)?;
         (rename_tac x4 s4, case_tac s4; simp)?; (rename_tac x5 s5, case_tac s5; simp)?)

lemma parse_date_refines:
  assumes "length s = 6"
  shows "parse_date s = map_option iso_of (spec_decode_date s)"
proof -
  from assms obtain a b c d e f where s: "s = [a, b, c, d, e, f]"
    using length6 by blast
  have alld: "list_all (\<lambda>c. c \<in> set ''0123456789'') s = list_all isdigit s"
    by (simp only: isdigit_fun)
  show ?thesis
  proof (cases "list_all isdigit s")
    case False
    then have "spec_decode_date s = None"
      unfolding spec_decode_date_def alld by simp
    with False show ?thesis
      by (simp add: parse_date_def str_isdigit_def)
  next
    case True
    then have dg: "isdigit a" "isdigit b" "isdigit c" "isdigit d" "isdigit e" "isdigit f"
      by (simp_all add: s)
    let ?yy = "10 * digit_of a + digit_of b"
    let ?mm = "10 * digit_of c + digit_of d"
    let ?dd = "10 * digit_of e + digit_of f"
    have yy: "?yy < 100"
      using digit_of_less [OF dg(1)] digit_of_less [OF dg(2)] by arith
    have yr: "1 \<le> spec_century ?yy" "spec_century ?yy \<le> 9999"
      using yy by (simp_all add: spec_century_def)
    have "parse_date s =
        (if date_ok (spec_century ?yy) ?mm ?dd
         then Some (iso_date (spec_century ?yy) ?mm ?dd) else None)"
      using True
      by (simp add: parse_date_def s str_isdigit_def slice_def int_of_str_def
          spec_century_def Let_def)
    moreover have "spec_decode_date s =
        (if calendar_valid (spec_century ?yy) ?mm ?dd
         then Some (spec_century ?yy, ?mm, ?dd) else None)"
      unfolding spec_decode_date_def alld using True dg
      by (simp add: s digit_rank_of Let_def)
    ultimately show ?thesis
      by (simp add: date_ok_calendar [OF yr] iso_of_def)
  qed
qed

lemma parse_date_not_digits: "\<not> list_all isdigit t \<Longrightarrow> parse_date t = None"
  by (simp add: parse_date_def str_isdigit_def)

lemma parse_date_examples:
  "map parse_date [''840102'', ''201231'', ''000101'', ''991340'', ''990230'', ''abc123'']
   = [Some ''1984-01-02'', Some ''2020-12-31'', Some ''2000-01-01'', None, None, None]"
  by (simp add: parse_date_def str_isdigit_def isdigit_def slice_def int_of_str_def
      digit_of_def date_ok_def days_in_month_def is_leap_def iso_date_def zero_pad_def
      decimal.simps)

text \<open>
  Claim C6: on every input of six characters, \<^verbatim>\<open>parse_date\<close> reads YYMMDD with the
  century 2000 for a year below 50 and 1900 otherwise, and returns the date (in the form
  YYYY-MM-DD) exactly when year, month and day are a date of the calendar, and nothing
  otherwise. In particular 840102, 201231 and 000101 give 1984-01-02, 2020-12-31 and
  2000-01-01; 991340, 990230 and every input with a character that is not a digit give
  nothing.
\<close>

theorem parse_date_spec:
  "(length s = 6 \<longrightarrow> parse_date s = map_option iso_of (spec_decode_date s))
   \<and> parse_date ''840102'' = Some ''1984-01-02''
   \<and> parse_date ''201231'' = Some ''2020-12-31''
   \<and> parse_date ''000101'' = Some ''2000-01-01''
   \<and> parse_date ''991340'' = None
   \<and> parse_date ''990230'' = None
   \<and> (\<not> list_all isdigit t \<longrightarrow> parse_date t = None)"
proof -
  have general: "length s = 6 \<longrightarrow> parse_date s = map_option iso_of (spec_decode_date s)"
    by (simp add: parse_date_refines)
  have no_digits: "\<not> list_all isdigit t \<longrightarrow> parse_date t = None"
    by (simp add: parse_date_not_digits)
  from general no_digits parse_date_examples show ?thesis by simp
qed

theorem parse_date_spec_witness:
  "length ''840102'' = 6
   \<and> parse_date ''840102'' = map_option iso_of (spec_decode_date ''840102'')
   \<and> spec_decode_date ''840102'' = Some (1984, 1, 2)
   \<and> \<not> list_all isdigit ''abc123''
   \<and> parse_date ''abc123'' = None"
proof -
  have d: "spec_decode_date ''840102'' = Some (1984, 1, 2)"
    by (simp add: spec_decode_date_def digit_rank_def spec_century_def calendar_valid_def
        spec_month_length_def)
  have n: "\<not> list_all isdigit ''abc123''"
    by (simp add: isdigit_def)
  from parse_date_spec [of "''840102''" "''abc123''"] d n show ?thesis by simp
qed

section \<open>Properties of the decoder\<close>

lemmas str_defs = strip_def rstrip_with_def isspace_def rstrip_def ljust_def slice_def
  remove_char_def replace_char_def startswith_def endswith_def count_char_def split_def
  int_of_str_def digit_of_def str_isdigit_def isdigit_def isalpha_def isalnum_def ord_def

lemmas date_defs = parse_date_def date_ok_def days_in_month_def is_leap_def iso_date_def
  zero_pad_def decimal.simps

lemmas check_defs = verify_check_digit_def calculate_check_digit_def char_value_def
  weights_def

lemma jennings_lines:
  "td3_line (strip jennings_line1) = ''P<GBRJENNINGS<<PAUL<MICHAEL<<<<<<<<<<<<<<<<<''"
  "td3_line (strip jennings_line2) = ''0123456784GBR8411025M08100504<<<<<<<<<<<<<<0''"
  "length (strip jennings_line1) = 43"
  "length (strip jennings_line2) = 45"
  by (simp_all add: jennings_line1_def jennings_line2_def td3_line_def str_defs)

lemma jennings_fields:
  "td3_fields ''P<GBRJENNINGS<<PAUL<MICHAEL<<<<<<<<<<<<<<<<<''
     ''0123456784GBR8411025M08100504<<<<<<<<<<<<<<0'' = jennings_record"
  by (simp add: jennings_record_def td3_fields_def fix_country_code_def str_defs date_defs
      check_defs Let_def)

lemma jennings_td3: "parse_td3_mrz [jennings_line1, jennings_line2] = Some jennings_record"
  by (simp add: parse_td3_mrz_def jennings_lines jennings_fields)

lemma jennings_cleaned: "cleaned_lines jennings_text = [jennings_line1, jennings_line2]"
  by (simp add: jennings_text_def jennings_line1_def jennings_line2_def cleaned_lines_def
      clean_line_def str_defs Let_def)

lemma jennings_filter: "looks_like_mrz jennings_line1" "looks_like_mrz jennings_line2"
  by (simp_all add: jennings_line1_def jennings_line2_def looks_like_mrz_def str_defs Let_def)

lemma jennings_mrz: "parse_mrz jennings_text = Some jennings_record"
  unfolding parse_mrz_def jennings_cleaned
  by (simp add: jennings_filter jennings_td3)

lemma eriksson_lines:
  "td3_line (strip eriksson_line1) = eriksson_line1"
  "td3_line (strip eriksson_line2) = eriksson_line2"
  "length (strip eriksson_line1) = 44"
  "length (strip eriksson_line2) = 44"
  by (simp_all add: eriksson_line1_def eriksson_line2_def td3_line_def str_defs)

lemma eriksson_fields: "td3_fields eriksson_line1 eriksson_line2 = eriksson_record"
  by (simp add: eriksson_line1_def eriksson_line2_def eriksson_record_def td3_fields_def
      fix_country_code_def str_defs date_defs check_defs Let_def)

lemma eriksson_td3: "parse_td3_mrz [eriksson_line1, eriksson_line2] = Some eriksson_record"
  by (simp add: parse_td3_mrz_def eriksson_lines eriksson_fields)

text \<open>
  Claim C2, as stated: decoding the two lines of the example gives document type P, issuing
  country GBR, surname JENNINGS, given names PAUL MICHAEL, passport number 0123456784,
  nationality GBR, date of birth 1984-11-02, sex M and date of expiry 2008-10-05. The
  decoder does not return these nine values: the passport number it returns has nine
  characters.
\<close>

theorem td3_round_trip_counterexample:
  "map_option decoded_fields (parse_td3_mrz [jennings_line1, jennings_line2])
   \<noteq> Some (''P'', ''GBR'', ''JENNINGS'', ''PAUL MICHAEL'', ''0123456784'', ''GBR'',
            Some ''1984-11-02'', ''M'', Some ''2008-10-05'')"
  by (simp add: jennings_td3 decoded_fields_def jennings_record_def)

text \<open>
  Claim C2, amended: decoding the two lines of the example, given as a list to
  \<^verbatim>\<open>parse_td3_mrz\<close> or as a text of two lines to \<^verbatim>\<open>parse_mrz\<close>, gives document type P,
  issuing country GBR, surname JENNINGS, given names PAUL MICHAEL, passport number
  012345678 (columns 0 to 8 of line 2; the 4 in column 9 is its check digit), nationality
  GBR, date of birth 1984-11-02, sex M and date of expiry 2008-10-05.
\<close>

theorem td3_round_trip_amended:
  "map_option decoded_fields (parse_td3_mrz [jennings_line1, jennings_line2])
   = Some (''P'', ''GBR'', ''JENNINGS'', ''PAUL MICHAEL'', ''012345678'', ''GBR'',
           Some ''1984-11-02'', ''M'', Some ''2008-10-05'')
   \<and> map_option decoded_fields (parse_mrz jennings_text)
   = Some (''P'', ''GBR'', ''JENNINGS'', ''PAUL MICHAEL'', ''012345678'', ''GBR'',
           Some ''1984-11-02'', ''M'', Some ''2008-10-05'')"
  by (simp add: jennings_td3 jennings_mrz decoded_fields_def jennings_record_def)

lemma td3_personal_number:
  assumes "parse_td3_mrz ls = Some r"
  shows "personal_number r
         = remove_char CHR ''<'' (slice 28 42 (td3_line (strip (ls ! 1))))"
  using assms
  by (auto simp: parse_td3_mrz_def td3_fields_def Let_def split: if_splits)

lemma td3_personal_check:
  assumes "parse_td3_mrz ls = Some r"
  shows "map_of (check_digits r) ''personal_number'' =
      Some (if personal_number r \<noteq> []
            then verify_check_digit (slice 28 42 (td3_line (strip (ls ! 1))))
                   [td3_line (strip (ls ! 1)) ! 42]
            else True)"
  using assms
  by (auto simp: parse_td3_mrz_def td3_fields_def Let_def split: if_splits)

text \<open>
  Claim C10: for every pair of lines that \<^verbatim>\<open>parse_td3_mrz\<close> decodes, the personal number
  is columns 28 to 41 of line 2 without the fillers; when it is empty, the check map
  reports the personal-number check as true, whatever character column 42 holds; the check
  digit is computed and compared with column 42 only when the personal number is not
  empty.
\<close>

theorem personal_number_check_skipped:
  assumes "parse_td3_mrz ls = Some r"
  shows "personal_number r = remove_char CHR ''<'' (slice 28 42 (td3_line (strip (ls ! 1))))
     \<and> (personal_number r = [] \<longrightarrow>
          map_of (check_digits r) ''personal_number'' = Some True)
     \<and> (personal_number r \<noteq> [] \<longrightarrow>
          map_of (check_digits r) ''personal_number'' =
            Some (verify_check_digit (slice 28 42 (td3_line (strip (ls ! 1))))
                    [td3_line (strip (ls ! 1)) ! 42]))"
proof (intro conjI impI)
  show "personal_number r = remove_char CHR ''<'' (slice 28 42 (td3_line (strip (ls ! 1))))"
    using assms by (rule td3_personal_number)
next
  assume "personal_number r = []"
  then show "map_of (check_digits r) ''personal_number'' = Some True"
    using td3_personal_check [OF assms] by simp
next
  assume "personal_number r \<noteq> []"
  then show "map_of (check_digits r) ''personal_number'' =
      Some (verify_check_digit (slice 28 42 (td3_line (strip (ls ! 1))))
              [td3_line (strip (ls ! 1)) ! 42])"
    using td3_personal_check [OF assms] by simp
qed

theorem personal_number_check_skipped_witness:
  "parse_td3_mrz [eriksson_line1, eriksson_line2] = Some eriksson_record
   \<and> personal_number eriksson_record = []
   \<and> map_of (check_digits eriksson_record) ''personal_number'' = Some True
   \<and> slice 28 43 eriksson_line2 = ''<<<<<<<<<<<<<<7''
   \<and> verify_check_digit (slice 28 42 eriksson_line2) [eriksson_line2 ! 42] = False
   \<and> parse_td3_mrz [jennings_line1, jennings_line2] = Some jennings_record
   \<and> personal_number jennings_record = ''4''
   \<and> map_of (check_digits jennings_record) ''personal_number''
       = Some (verify_check_digit (slice 28 42 (td3_line (strip jennings_line2)))
                 [td3_line (strip jennings_line2) ! 42])"
proof -
  have e: "personal_number eriksson_record = []"
    by (simp add: eriksson_record_def)
  have j: "personal_number jennings_record = ''4''"
    by (simp add: jennings_record_def)
  have c: "slice 28 43 eriksson_line2 = ''<<<<<<<<<<<<<<7''"
    by (simp add: eriksson_line2_def slice_def)
  have v: "verify_check_digit (slice 28 42 eriksson_line2) [eriksson_line2 ! 42] = False"
    by (simp add: eriksson_line2_def check_defs str_defs)
  from personal_number_check_skipped [OF eriksson_td3]
    personal_number_check_skipped [OF jennings_td3] eriksson_td3 jennings_td3 e j c v
  show ?thesis by simp
qed

section \<open>Properties of line selection\<close>

lemma rstrip_with_set: "set (rstrip_with p s) \<subseteq> set s"
  unfolding rstrip_with_def using set_dropWhileD [of _ p "rev s"] by auto

lemma clean_line_no_space: "CHR '' '' \<notin> set (clean_line l)"
proof -
  let ?x = "replace_char CHR ''-'' CHR ''<'' (remove_char CHR '' '' (strip l))"
  have x: "CHR '' '' \<notin> set ?x"
    by (auto simp: replace_char_def remove_char_def split: if_splits)
  have "set (clean_line l) \<subseteq> set ?x"
    using rstrip_with_set [of "\<lambda>c. c \<in> set ''KX''" ?x]
    by (simp add: clean_line_def Let_def rstrip_def)
  with x show ?thesis by blast
qed

lemma looks_like_mrz_iff:
  "looks_like_mrz line \<longleftrightarrow> CHR '' '' \<notin> set line \<and> amended_mrz_candidate line"
  by (auto simp: looks_like_mrz_def amended_mrz_candidate_def spec_candidate_shape_def
      valid_count_def Let_def)

lemma parse_mrz_needs_two:
  assumes "length (filter looks_like_mrz (cleaned_lines t)) < 2"
  shows "parse_mrz t = None"
  using assms by (simp add: parse_mrz_def parse_td3_mrz_def Let_def)

lemma parse_mrz_short:
  assumes "\<forall>line \<in> set (cleaned_lines t). length line < 35"
  shows "parse_mrz t = None"
proof -
  have "filter looks_like_mrz (cleaned_lines t) = []"
    using assms by (auto simp: filter_empty_conv looks_like_mrz_def Let_def)
  then show ?thesis by (simp add: parse_mrz_def)
qed

lemma parse_td3_short:
  assumes "length ls < 2 \<or> length (strip (ls ! 0)) < 35 \<or> length (strip (ls ! 1)) < 35"
  shows "parse_td3_mrz ls = None"
  using assms by (auto simp: parse_td3_mrz_def Let_def)

lemma impure_line_facts:
  "clean_line impure_line = impure_line"
  "length impure_line = 40"
  "valid_count impure_line = 36"
  "spec_mrz_candidate impure_line"
  "\<not> looks_like_mrz impure_line"
  by (simp_all add: impure_line_def clean_line_def spec_mrz_candidate_def
      spec_candidate_shape_def valid_count_def looks_like_mrz_def str_defs Let_def)

text \<open>
  Claim C5, as stated: a normalized line is kept exactly when it has 35 to 50 characters,
  at least 90 percent of them alphanumeric or the filler, contains the filler, and starts
  with one of P, A, C, I, V or has at least five fillers. A line of 40 characters with 36
  such characters (exactly 90 percent) meets these conditions and is not kept.
\<close>

theorem mrz_line_selection_counterexample:
  "clean_line impure_line = impure_line
   \<and> length impure_line = 40
   \<and> valid_count impure_line = 36
   \<and> spec_mrz_candidate impure_line
   \<and> \<not> looks_like_mrz impure_line"
  using impure_line_facts by simp

text \<open>
  Claim C5, amended: a normalized line is kept exactly when it has 35 to 50 characters,
  more than 90 percent of them alphanumeric or the filler, contains the filler, and starts
  with one of P, A, C, I, V or has at least five fillers. Decoding fails whenever fewer
  than two lines are kept; in particular a text whose normalized lines are all shorter than
  35 characters is not decoded, and \<^verbatim>\<open>parse_td3_mrz\<close> decodes no list whose first or
  second line is shorter than 35 characters.
\<close>

theorem mrz_line_selection_amended:
  "(looks_like_mrz (clean_line l) \<longleftrightarrow> amended_mrz_candidate (clean_line l))
   \<and> (length (filter looks_like_mrz (cleaned_lines t)) < 2 \<longrightarrow> parse_mrz t = None)
   \<and> ((\<forall>line \<in> set (cleaned_lines u). length line < 35) \<longrightarrow> parse_mrz u = None)
   \<and> (length ls < 2 \<or> length (strip (ls ! 0)) < 35 \<or> length (strip (ls ! 1)) < 35
        \<longrightarrow> parse_td3_mrz ls = None)"
proof (intro conjI impI)
  show "looks_like_mrz (clean_line l) \<longleftrightarrow> amended_mrz_candidate (clean_line l)"
    by (simp add: looks_like_mrz_iff clean_line_no_space)
next
  assume "length (filter looks_like_mrz (cleaned_lines t)) < 2"
  then show "parse_mrz t = None" by (rule parse_mrz_needs_two)
next
  assume "\<forall>line \<in> set (cleaned_lines u). length line < 35"
  then show "parse_mrz u = None" by (rule parse_mrz_short)
next
  assume "length ls < 2 \<or> length (strip (ls ! 0)) < 35 \<or> length (strip (ls ! 1)) < 35"
  then show "parse_td3_mrz ls = None" by (rule parse_td3_short)
qed

theorem mrz_line_selection_amended_witness:
  "looks_like_mrz (clean_line jennings_line1)
   \<and> amended_mrz_candidate (clean_line jennings_line1)
   \<and> length (filter looks_like_mrz (cleaned_lines jennings_line1)) = 1
   \<and> parse_mrz jennings_line1 = None
   \<and> cleaned_lines short_text = [''P<GBR'', ''0123456784'']
   \<and> parse_mrz short_text = None
   \<and> length (strip ''P<GBR'') = 5
   \<and> parse_td3_mrz [''P<GBR'', ''0123456784''] = None"
proof -
  have c1: "clean_line jennings_line1 = jennings_line1"
    by (simp add: jennings_line1_def clean_line_def str_defs Let_def)
  have k1: "looks_like_mrz (clean_line jennings_line1)"
    by (simp add: c1 jennings_filter)
  have cl: "cleaned_lines jennings_line1 = [jennings_line1]"
    by (simp add: jennings_line1_def cleaned_lines_def clean_line_def str_defs Let_def)
  have one: "length (filter looks_like_mrz (cleaned_lines jennings_line1)) = 1"
    by (simp add: cl jennings_filter)
  have cs: "cleaned_lines short_text = [''P<GBR'', ''0123456784'']"
    by (simp add: short_text_def cleaned_lines_def clean_line_def str_defs Let_def)
  have short: "\<forall>line \<in> set (cleaned_lines short_text). length line < 35"
    by (simp add: cs)
  have s5: "length (strip ''P<GBR'') = 5"
    by (simp add: str_defs)
  from mrz_line_selection_amended
         [of jennings_line1 jennings_line1 short_text "[''P<GBR'', ''0123456784'']"]
       k1 one cs short s5
  show ?thesis by simp
qed

section \<open>Properties of the validator\<close>

lemma checksum_errors_eq:
  "checksum_errors (check_digits r) =
     (if failing_critical r = [] then []
      else [''Critical MRZ checksum validation failed: '' @ join '', '' (failing_critical r)])"
  by (simp add: checksum_errors_def failing_critical_def critical_names_def Let_def)

lemma checksum_errors_filter:
  "filter is_checksum_violation (checksum_errors cd) = checksum_errors cd"
  by (simp add: checksum_errors_def is_checksum_violation_def startswith_def Let_def)

lemma other_rules_no_checksum_violation:
  "filter is_checksum_violation (document_type_errors r) = []"
  "filter is_checksum_violation (country_errors r) = []"
  "filter is_checksum_violation (dob_errors now d) = []"
  "filter is_checksum_violation (expiry_errors now e) = []"
  "filter is_checksum_violation (required_errors r) = []"
  by (simp_all add: document_type_errors_def country_errors_def dob_errors_def
      expiry_errors_def required_errors_def is_checksum_violation_def startswith_def Let_def
      split: option.splits)

lemma validate_checksum_violations:
  "filter is_checksum_violation (snd (validate_passport now r))
   = checksum_errors (check_digits r)"
  by (simp add: validate_passport_def Let_def other_rules_no_checksum_violation
      checksum_errors_filter)

lemma checksum_errors_cong:
  assumes "\<forall>k \<in> set critical_names. map_of cd' k = map_of cd k"
  shows "checksum_errors cd' = checksum_errors cd"
  using assms by (simp add: checksum_errors_def critical_names_def)

lemma validate_cong:
  assumes "\<forall>k \<in> set critical_names. map_of cd' k = map_of (check_digits r) k"
  shows "validate_passport now (r\<lparr>check_digits := cd'\<rparr>) = validate_passport now r"
  using checksum_errors_cong [OF assms]
  by (simp add: validate_passport_def document_type_errors_def country_errors_def
      required_errors_def)

text \<open>
  Claim C4: the checksum rule of the validator depends only on the three critical check
  results (passport number, date of birth, expiry). Among the violations of a record there
  is exactly one of the checksum rule when a critical check is not true, and it names the
  failing checks; there is none when the three are true, whatever the personal-number and
  composite results are. Replacing the check map by one with the same three critical
  results leaves the whole verdict unchanged.
\<close>

theorem checksum_rule_critical_only:
  "filter is_checksum_violation (snd (validate_passport now r))
     = (if failing_critical r = [] then []
        else [''Critical MRZ checksum validation failed: ''
              @ join '', '' (failing_critical r)])
   \<and> ((\<forall>k \<in> set critical_names. map_of cd' k = map_of (check_digits r) k)
        \<longrightarrow> validate_passport now (r\<lparr>check_digits := cd'\<rparr>) = validate_passport now r)"
proof (intro conjI impI)
  show "filter is_checksum_violation (snd (validate_passport now r))
     = (if failing_critical r = [] then []
        else [''Critical MRZ checksum validation failed: ''
              @ join '', '' (failing_critical r)])"
    by (simp only: validate_checksum_violations checksum_errors_eq)
next
  assume "\<forall>k \<in> set critical_names. map_of cd' k = map_of (check_digits r) k"
  then show "validate_passport now (r\<lparr>check_digits := cd'\<rparr>) = validate_passport now r"
    by (rule validate_cong)
qed

theorem checksum_rule_critical_only_witness:
  "map_of (check_digits eriksson_record) ''composite'' = Some False
   \<and> failing_critical eriksson_record = []
   \<and> filter is_checksum_violation (snd (validate_passport noon_2026_11_04 eriksson_record))
       = []
   \<and> failing_critical jennings_record = [''date_of_birth'']
   \<and> filter is_checksum_violation (snd (validate_passport noon_2026_11_04 jennings_record))
       = [''Critical MRZ checksum validation failed: date_of_birth'']
   \<and> map_of other_checks ''personal_number'' = Some False
   \<and> validate_passport noon_2026_11_04 (eriksson_record\<lparr>check_digits := other_checks\<rparr>)
       = validate_passport noon_2026_11_04 eriksson_record"
proof -
  have c: "map_of (check_digits eriksson_record) ''composite'' = Some False"
    by (simp add: eriksson_record_def)
  have fe: "failing_critical eriksson_record = []"
    by (simp add: failing_critical_def critical_names_def eriksson_record_def)
  have fj: "failing_critical jennings_record = [''date_of_birth'']"
    by (simp add: failing_critical_def critical_names_def jennings_record_def)
  have p: "map_of other_checks ''personal_number'' = Some False"
    by (simp add: other_checks_def)
  have same: "\<forall>k \<in> set critical_names.
      map_of other_checks k = map_of (check_digits eriksson_record) k"
    by (simp add: critical_names_def other_checks_def eriksson_record_def)
  from checksum_rule_critical_only [of noon_2026_11_04 eriksson_record other_checks]
       checksum_rule_critical_only [of noon_2026_11_04 jennings_record other_checks]
       c fe fj p same
  show ?thesis by simp
qed







lemmas strptime_defs = strptime_ymd_def match_year_def expect_dash_def int_of_str_def
  digit_of_def isdigit_def date_ok_def days_in_month_def is_leap_def







section \<open>Properties of the region locator\<close>

lemmas float_defs = bottom_height_def float_mul_def round53_def bit_length.simps Let_def

lemma bit_length_bound: "n < 2 ^ bit_length n"
proof (induction n rule: bit_length.induct)
  case (1 n)
  show ?case
  proof (cases "n = 0")
    case True
    then show ?thesis by simp
  next
    case False
    with 1 have "n div 2 < 2 ^ bit_length (n div 2)" by simp
    then have "n < 2 * 2 ^ bit_length (n div 2)" by arith
    with False show ?thesis by (subst bit_length.simps) simp
  qed
qed

lemma bit_length_pos: "0 < n \<Longrightarrow> 0 < bit_length n"
  by (subst bit_length.simps) simp

lemma bit_length_lower: "0 < n \<Longrightarrow> 2 ^ (bit_length n - 1) \<le> n"
proof (induction n rule: bit_length.induct)
  case (1 n)
  then have n: "n \<noteq> 0" by simp
  have bl: "bit_length n = Suc (bit_length (n div 2))"
    using n by (subst bit_length.simps) simp
  show ?case
  proof (cases "n div 2 = 0")
    case True
    then have "bit_length (n div 2) = 0" by (subst bit_length.simps) simp
    with bl 1(2) show ?thesis by simp
  next
    case False
    then have pos: "0 < n div 2" by simp
    with 1(1) n have ih: "2 ^ (bit_length (n div 2) - 1) \<le> n div 2" by simp
    have "0 < bit_length (n div 2)" using pos by (rule bit_length_pos)
    then have "(2::nat) ^ bit_length (n div 2) = 2 * 2 ^ (bit_length (n div 2) - 1)"
      by (cases "bit_length (n div 2)") simp_all
    with ih have "(2::nat) ^ bit_length (n div 2) \<le> n" by arith
    with bl show ?thesis by simp
  qed
qed

lemma bit_length_mono:
  assumes "m \<le> n"
  shows "bit_length m \<le> bit_length n"
proof (rule ccontr)
  assume "\<not> bit_length m \<le> bit_length n"
  then have lt: "bit_length n < bit_length m" by simp
  then have mpos: "0 < m" by (cases "m = 0") (simp_all add: bit_length.simps)
  from lt have "bit_length n \<le> bit_length m - 1" by simp
  then have "(2::nat) ^ bit_length n \<le> 2 ^ (bit_length m - 1)"
    by (rule power_increasing) simp
  also have "\<dots> \<le> m" using mpos by (rule bit_length_lower)
  finally have "2 ^ bit_length n \<le> n" using assms by simp
  with bit_length_bound [of n] show False by simp
qed

lemma round53_lower:
  assumes "2 ^ (bit_length p - 53) dvd z" and "z \<le> p"
  shows "z \<le> round53 p"
proof -
  let ?k = "bit_length p - 53"
  from assms(1) obtain c where z: "z = 2 ^ ?k * c" by (auto simp: dvd_def)
  have "c \<le> p div 2 ^ ?k"
    using assms(2) z by (simp add: less_eq_div_iff_mult_less_eq mult.commute)
  then have "z \<le> (p div 2 ^ ?k) * 2 ^ ?k"
    using z by (simp add: mult.commute)
  also have "\<dots> \<le> round53 p"
    by (simp add: round53_def Let_def)
  finally show ?thesis .
qed

lemma round53_upper:
  assumes "2 ^ (bit_length p - 53) dvd z" and "p \<le> z"
  shows "round53 p \<le> z"
proof -
  let ?k = "bit_length p - 53"
  let ?q = "p div 2 ^ ?k"
  let ?r = "p mod 2 ^ ?k"
  from assms(1) obtain c where z: "z = 2 ^ ?k * c" by (auto simp: dvd_def)
  have p: "p = ?q * 2 ^ ?k + ?r" by (simp only: div_mult_mod_eq)
  show ?thesis
  proof (cases "?r = 0")
    case True
    then have "round53 p = ?q * 2 ^ ?k" by (simp add: round53_def Let_def)
    also have "\<dots> = p" using True p by simp
    finally show ?thesis using assms(2) by simp
  next
    case False
    then have "?q * 2 ^ ?k < p" using p by arith
    also have "p \<le> z" by fact
    also have "z = c * 2 ^ ?k" using z by (simp add: mult.commute)
    finally have "?q * 2 ^ ?k < c * 2 ^ ?k" .
    then have "?q < c" by simp
    then have "?q + 1 \<le> c" by simp
    then have "(?q + 1) * 2 ^ ?k \<le> c * 2 ^ ?k" by (rule mult_le_mono1)
    moreover have "round53 p \<le> (?q + 1) * 2 ^ ?k"
      by (simp add: round53_def Let_def)
    ultimately show ?thesis using z by (simp add: mult.commute)
  qed
qed


lemma bit_length_zero: "bit_length 0 = 0"
  by (simp add: bit_length.simps)

lemma round53_ge:
  assumes "2 ^ (bit_length z - 53) dvd z" and "z \<le> p"
  shows "z \<le> round53 p"
proof (cases "bit_length z = bit_length p")
  case True
  with assms show ?thesis by (simp add: round53_lower)
next
  case False
  with bit_length_mono [OF assms(2)] have lt: "bit_length z < bit_length p" by simp
  then have ppos: "0 < p" by (cases "p = 0") (simp_all add: bit_length_zero)
  let ?w = "(2::nat) ^ (bit_length p - 1)"
  have "(2::nat) ^ (bit_length p - 53) dvd ?w"
    by (rule le_imp_power_dvd) simp
  moreover have "?w \<le> p" using ppos by (rule bit_length_lower)
  ultimately have w: "?w \<le> round53 p" by (rule round53_lower)
  have "z < 2 ^ bit_length z" by (rule bit_length_bound)
  also have "(2::nat) ^ bit_length z \<le> ?w"
    by (rule power_increasing) (use lt in simp_all)
  finally show ?thesis using w by simp
qed

lemma round53_le:
  assumes "2 ^ (bit_length z - 53) dvd z" and "p \<le> z"
  shows "round53 p \<le> z"
proof (cases "bit_length z = bit_length p")
  case True
  with assms show ?thesis by (simp add: round53_upper)
next
  case False
  with bit_length_mono [OF assms(2)] have lt: "bit_length p < bit_length z" by simp
  then have zpos: "0 < z" by (cases "z = 0") (simp_all add: bit_length_zero)
  let ?w = "(2::nat) ^ bit_length p"
  have "(2::nat) ^ (bit_length p - 53) dvd ?w"
    by (rule le_imp_power_dvd) simp
  moreover have "p \<le> ?w" using bit_length_bound [of p] by simp
  ultimately have "round53 p \<le> ?w" by (rule round53_upper)
  also have "?w \<le> 2 ^ (bit_length z - 1)"
    by (rule power_increasing) (use lt in simp_all)
  also have "\<dots> \<le> z" using zpos by (rule bit_length_lower)
  finally show ?thesis .
qed

lemma round53_small:
  assumes "h \<le> 273"
  shows "round53 h = h"
proof -
  have "bit_length h \<le> bit_length 273" using assms by (rule bit_length_mono)
  also have "bit_length 273 = 9" by (simp add: bit_length.simps)
  finally have "bit_length h - 53 = 0" by simp
  then show ?thesis by (simp add: round53_def)
qed

lemma bottom_height_small:
  assumes "h \<le> 273"
  shows "bottom_height h \<le> 40"
proof -
  let ?z = "1477180677777522432 :: nat"
  have bl: "bit_length ?z = 61" by (simp add: bit_length.simps)
  have rep: "2 ^ (bit_length ?z - 53) dvd ?z" by (simp add: bl)
  have "h * 5404319552844595 \<le> 273 * 5404319552844595"
    using assms by (rule mult_le_mono1)
  then have "h * 5404319552844595 \<le> ?z" by simp
  with rep have "round53 (h * 5404319552844595) \<le> ?z" by (rule round53_le)
  then have "float_mul h 5404319552844595 < 41 * 2 ^ 55"
    by (simp add: float_mul_def round53_small [OF assms])
  then have "bottom_height h < 41"
    unfolding bottom_height_def by (simp add: div_less_iff_less_mult)
  then show ?thesis by simp
qed

lemma bottom_height_large:
  assumes "274 \<le> h"
  shows "41 \<le> bottom_height h"
proof -
  let ?z = "1477180677777522688 :: nat"
  have "bit_length 274 = 9" by (simp add: bit_length.simps)
  then have "2 ^ (bit_length 274 - 53) dvd (274 :: nat)" by simp
  then have "274 \<le> round53 h" using assms by (rule round53_ge)
  then have "274 * 5404319552844595 \<le> round53 h * 5404319552844595"
    by (rule mult_le_mono1)
  then have le: "?z \<le> round53 h * 5404319552844595" by simp
  have bl: "bit_length ?z = 61" by (simp add: bit_length.simps)
  have rep: "2 ^ (bit_length ?z - 53) dvd ?z" by (simp add: bl)
  from rep le have "?z \<le> float_mul h 5404319552844595"
    unfolding float_mul_def by (rule round53_ge)
  then have "41 * 2 ^ 55 \<le> float_mul h 5404319552844595" by simp
  then show ?thesis
    unfolding bottom_height_def by (simp add: less_eq_div_iff_mult_less_eq)
qed

lemma bottom_height_threshold: "40 < bottom_height h \<longleftrightarrow> 274 \<le> h"
proof
  assume "40 < bottom_height h"
  then show "274 \<le> h" using bottom_height_small [of h] by (cases "h \<le> 273") simp_all
next
  assume "274 \<le> h"
  then show "40 < bottom_height h" using bottom_height_large [of h] by simp
qed

lemma detect_fallback:
  assumes "contours \<noteq> []" and "filter (is_candidate h w) contours = []"
  shows "detect_mrz h w contours =
     (if 40 < bottom_height h
      then Some \<lparr> row_start = h - bottom_height h, row_end = h, col_start = 0, col_end = w \<rparr>
      else None)"
  using assms by (simp add: detect_mrz_def)

lemma example_detect:
  "filter (is_candidate 800 600) [(0, 0, 10, 10)] = []"
  "bottom_height 800 = 120"
  "detect_mrz 800 600 [(0, 0, 10, 10)]
   = Some \<lparr> row_start = 680, row_end = 800, col_start = 0, col_end = 600 \<rparr>"
  by (simp_all add: detect_mrz_def is_candidate_def float_defs)

lemma small_detect:
  "filter (is_candidate 267 400) [(0, 0, 10, 10)] = []"
  "bottom_height 267 = 40"
  "detect_mrz 267 400 [(0, 0, 10, 10)] = None"
  "detect_mrz 800 600 [] = None"
  by (simp_all add: detect_mrz_def is_candidate_def float_defs)

text \<open>
  Claim C9, as stated: when no contour passes the geometric filter, the locator returns
  the bottom 15 percent of the image whenever that band is at least 40 pixels tall, so
  for every height from 267 on. An image 267 pixels high with one contour that fails the
  filter has a band of 40 pixels and gets no region; an image 800 pixels high with no
  contour at all has a band of 120 pixels and gets no region either.
\<close>

theorem fallback_region_counterexample:
  "filter (is_candidate 267 400) [(0, 0, 10, 10)] = []
   \<and> bottom_height 267 = 40
   \<and> detect_mrz 267 400 [(0, 0, 10, 10)] = None
   \<and> filter (is_candidate 800 600) [] = []
   \<and> bottom_height 800 = 120
   \<and> detect_mrz 800 600 [] = None"
  using small_detect example_detect(2) by simp

text \<open>
  Claim C9, amended: when at least one contour was extracted and none passes the
  geometric filter, the locator returns the bottom \<^verbatim>\<open>int(h * 0.15)\<close> rows of the image,
  at full width, whenever that band is more than 40 pixels tall, and nothing otherwise.
  The band is more than 40 pixels tall exactly for a height of at least 274 pixels: such
  an image gets a region with at least one row from the fallback path, a smaller image
  gets none. When no contour was extracted at all, the locator returns nothing.
\<close>

theorem fallback_region_amended:
  assumes "contours \<noteq> []" and "filter (is_candidate h w) contours = []"
  shows "detect_mrz h w contours =
           (if 40 < bottom_height h
            then Some \<lparr> row_start = h - bottom_height h, row_end = h,
                        col_start = 0, col_end = w \<rparr>
            else None)
     \<and> (40 < bottom_height h \<longleftrightarrow> 274 \<le> h)
     \<and> (274 \<le> h \<longrightarrow>
           detect_mrz h w contours =
             Some \<lparr> row_start = h - bottom_height h, row_end = h,
                    col_start = 0, col_end = w \<rparr>
           \<and> h - bottom_height h < h)
     \<and> (h < 274 \<longrightarrow> detect_mrz h w contours = None)
     \<and> detect_mrz h w [] = None"
proof -
  have fb: "detect_mrz h w contours =
           (if 40 < bottom_height h
            then Some \<lparr> row_start = h - bottom_height h, row_end = h,
                        col_start = 0, col_end = w \<rparr>
            else None)"
    using assms by (rule detect_fallback)
  have th: "40 < bottom_height h \<longleftrightarrow> 274 \<le> h"
    by (rule bottom_height_threshold)
  have rows: "274 \<le> h \<longrightarrow> h - bottom_height h < h"
    using bottom_height_large [of h] by auto
  have none: "detect_mrz h w [] = None"
    by (simp add: detect_mrz_def)
  have big: "274 \<le> h \<longrightarrow> 40 < bottom_height h" using th by simp
  have small: "h < 274 \<longrightarrow> \<not> 40 < bottom_height h" using th by simp
  from fb th rows none big small show ?thesis by simp
qed

theorem fallback_region_amended_witness:
  "[(0, 0, 10, 10)] \<noteq> ([] :: box list)
   \<and> filter (is_candidate 800 600) [(0, 0, 10, 10)] = []
   \<and> bottom_height 800 = 120
   \<and> detect_mrz 800 600 [(0, 0, 10, 10)]
       = Some \<lparr> row_start = 680, row_end = 800, col_start = 0, col_end = 600 \<rparr>
   \<and> filter (is_candidate 267 400) [(0, 0, 10, 10)] = []
   \<and> detect_mrz 267 400 [(0, 0, 10, 10)] = None"
proof -
  have ne: "[(0, 0, 10, 10)] \<noteq> ([] :: box list)" by simp
  have big: "(274 :: nat) \<le> 800" and small: "(267 :: nat) < 274" by simp_all
  from fallback_region_amended [OF ne example_detect(1)]
       fallback_region_amended [OF ne small_detect(1)]
       ne example_detect(1, 2) small_detect(1) big small
  show ?thesis by simp
qed

section \<open>Properties of the pipeline\<close>

lemma validate_jennings:
  "validate_passport noon_2026_11_04 jennings_record
   = (False, [''Critical MRZ checksum validation failed: date_of_birth'',
              ''Passport has expired''])"
  by (simp add: validate_passport_def document_type_errors_def country_errors_def
      checksum_errors_def dob_errors_def expiry_errors_def required_errors_def
      VALID_DOCUMENT_TYPES_def VALID_COUNTRY_CODES_def upper_def upper_char_def
      jennings_record_def strptime_defs datetime_less_def dt_fields_def midnight_def
      noon_2026_11_04_def Let_def)

lemma process_image_success:
  assumes "detect_mrz (fst (shape img)) (snd (shape img)) (find_contours img) = Some roi"
    and "extract_mrz_text img roi = Some raw"
    and "parse_mrz raw = Some pr"
  shows "process_image shape find_contours extract_mrz_text debug now img =
      Some \<lparr> success = True, error = None,
             valid_passport = fst (validate_passport now pr),
             parsed = Some pr,
             validation_errors =
               (if snd (validate_passport now pr) = [] then None
                else Some (snd (validate_passport now pr))),
             mrz_text = (if debug then Some raw else None) \<rparr>"
  using assms by (simp add: process_image_def split: prod.splits)

lemma validate_verdict: "fst (validate_passport now pr) \<longleftrightarrow> snd (validate_passport now pr) = []"
  by (simp add: validate_passport_def Let_def)


lemma example_process:
  "detect_mrz (fst (example_shape ())) (snd (example_shape ())) (example_contours ())
   = Some \<lparr> row_start = 680, row_end = 800, col_start = 0, col_end = 600 \<rparr>"
  "example_recogniser () \<lparr> row_start = 680, row_end = 800, col_start = 0, col_end = 600 \<rparr>
   = Some jennings_text"
  by (simp_all add: example_shape_def example_contours_def example_recogniser_def
      example_detect)

text \<open>
  Claim C3: for every image for which the location of the region, the recognition of the
  text and the decoding succeed, the result of the pipeline is a success that carries the
  decoded record, also when the validator finds violations: the success flag is true, the
  validity flag is the verdict of the validator (false exactly when there are
  violations), and the list of violations, in the validator's order, is attached when it
  is not empty. No failure of a stage is reported.
\<close>

theorem validation_failure_is_success:
  assumes "detect_mrz (fst (shape img)) (snd (shape img)) (find_contours img) = Some roi"
    and "extract_mrz_text img roi = Some raw"
    and "parse_mrz raw = Some pr"
  shows "process_image shape find_contours extract_mrz_text debug now img =
           Some \<lparr> success = True, error = None,
                  valid_passport = fst (validate_passport now pr),
                  parsed = Some pr,
                  validation_errors =
                    (if snd (validate_passport now pr) = [] then None
                     else Some (snd (validate_passport now pr))),
                  mrz_text = (if debug then Some raw else None) \<rparr>
     \<and> (fst (validate_passport now pr) \<longleftrightarrow> snd (validate_passport now pr) = [])"
proof
  show "process_image shape find_contours extract_mrz_text debug now img =
           Some \<lparr> success = True, error = None,
                  valid_passport = fst (validate_passport now pr),
                  parsed = Some pr,
                  validation_errors =
                    (if snd (validate_passport now pr) = [] then None
                     else Some (snd (validate_passport now pr))),
                  mrz_text = (if debug then Some raw else None) \<rparr>"
    using assms by (rule process_image_success)
next
  show "fst (validate_passport now pr) \<longleftrightarrow> snd (validate_passport now pr) = []"
    by (rule validate_verdict)
qed

theorem validation_failure_is_success_witness:
  "parse_mrz jennings_text = Some jennings_record
   \<and> validate_passport noon_2026_11_04 jennings_record
       = (False, [''Critical MRZ checksum validation failed: date_of_birth'',
                  ''Passport has expired''])
   \<and> process_image example_shape example_contours example_recogniser False
         noon_2026_11_04 ()
       = Some \<lparr> success = True, error = None, valid_passport = False,
                parsed = Some jennings_record,
                validation_errors =
                  Some [''Critical MRZ checksum validation failed: date_of_birth'',
                        ''Passport has expired''],
                mrz_text = None \<rparr>"
proof -
  have "process_image example_shape example_contours example_recogniser False
          noon_2026_11_04 () =
           Some \<lparr> success = True, error = None,
                  valid_passport = fst (validate_passport noon_2026_11_04 jennings_record),
                  parsed = Some jennings_record,
                  validation_errors =
                    (if snd (validate_passport noon_2026_11_04 jennings_record) = [] then None
                     else Some (snd (validate_passport noon_2026_11_04 jennings_record))),
                  mrz_text = (if False then Some jennings_text else None) \<rparr>
     \<and> (fst (validate_passport noon_2026_11_04 jennings_record)
          \<longleftrightarrow> snd (validate_passport noon_2026_11_04 jennings_record) = [])"
    by (rule validation_failure_is_success)
       (rule example_process(1), rule example_process(2), rule jennings_mrz)
  with jennings_mrz validate_jennings show ?thesis by simp
qed

end
